theory Spec2Isabelle
  imports Main
begin

section \<open>The converter between native values and DynamoDB attribute values\<close>

text \<open>
  The repository is a TypeScript clone of the AWS SDK's \<^verbatim>\<open>DynamoDB.Converter\<close>:
  \<^verbatim>\<open>types.ts\<close> classifies a native value (\<^verbatim>\<open>typeOf\<close>), \<^verbatim>\<open>set.ts\<close> holds the class
  \<^verbatim>\<open>DynamoDBSet\<close>, and \<^verbatim>\<open>converter.ts\<close> holds \<^verbatim>\<open>Converter.input\<close> (marshal),
  \<^verbatim>\<open>Converter.output\<close> (unmarshal), their record forms \<^verbatim>\<open>marshall\<close> and
  \<^verbatim>\<open>unmarshall\<close>, and the class \<^verbatim>\<open>NumberValue\<close>.

  The functions below follow the source function by function and keep its names.
  What belongs to the JavaScript runtime and not to the repository (how a number
  prints, how a string parses to a number, how a date prints, what \<^verbatim>\<open>Buffer.from\<close>
  builds) is a parameter of the model, collected in the record \<open>runtime\<close>.
\<close>

subsection \<open>Native values\<close>

text \<open>
  The binary representations \<^verbatim>\<open>isBinary\<close> of \<^verbatim>\<open>types.ts\<close> recognises, in the order
  of its \<^verbatim>\<open>types\<close> array.
\<close>

datatype binkind =
    Buffer | File | Blob | ArrayBuffer | DataView
  | Int8Array | Uint8Array | Uint8ClampedArray
  | Int16Array | Uint16Array | Int32Array | Uint32Array
  | Float32Array | Float64Array

text \<open>The elements of a binary payload; the converter never looks inside them.\<close>

type_synonym elements = "nat list"

text \<open>
  What a set can hold, by the error message of \<^verbatim>\<open>DynamoDBSet\<close> (``Sets can contain
  string, number, or binary values'') and the keys of \<^verbatim>\<open>memberTypeToSetType\<close>:
  a string, a number, a \<^verbatim>\<open>NumberValue\<close> (identified by the string it wraps) or a
  binary payload.
\<close>

datatype 'n member =
    MString string
  | MNumber 'n
  | MNumberValue string
  | MBinary binkind elements

text \<open>
  A native value. \<open>'n\<close> is the runtime's type of numbers, \<open>'d\<close> its type of dates.
  An object is the list of its own enumerable properties in enumeration order.
  \<^item> \<open>JObject\<close> is a plain object (constructor \<^verbatim>\<open>Object\<close>, or none);
  \<^item> \<open>JInstance c ps\<close> is an instance of a user-defined class named \<open>c\<close>;
  \<^item> \<open>JSet t vs\<close> is an object shaped like a \<^verbatim>\<open>DynamoDBSet\<close>: its \<^verbatim>\<open>wrapperName\<close>
    is \<^verbatim>\<open>'Set'\<close>, its \<^verbatim>\<open>type\<close> is \<open>t\<close> (\<open>None\<close> when the field is unset) and its
    \<^verbatim>\<open>values\<close> are \<open>vs\<close>;
  \<^item> \<open>JNumberValue s\<close> is a \<^verbatim>\<open>NumberValue\<close> whose \<^verbatim>\<open>value\<close> is the string \<open>s\<close>.

  Outside the model: an object with an own property named \<^verbatim>\<open>constructor\<close>,
  \<^verbatim>\<open>wrapperName\<close> or \<^verbatim>\<open>__proto__\<close> (other than the \<^verbatim>\<open>wrapperName\<close> of a set), and a
  user-defined class bearing one of the names \<^verbatim>\<open>typeOf\<close> gives a meaning to
  (see \<open>custom_class\<close> below).
\<close>

datatype ('n, 'd) jsval =
    JUndefined
  | JNull
  | JBoolean bool
  | JNumber 'n
  | JString string
  | JDate 'd
  | JBinary binkind elements
  | JArray "('n, 'd) jsval list"
  | JObject "(string \<times> ('n, 'd) jsval) list"
  | JInstance string "(string \<times> ('n, 'd) jsval) list"
  | JFunction
  | JSet "string option" "'n member list"
  | JNumberValue string

fun member_value :: "'n member \<Rightarrow> ('n, 'd) jsval" where
  "member_value (MString s) = JString s"
| "member_value (MNumber n) = JNumber n"
| "member_value (MNumberValue s) = JNumberValue s"
| "member_value (MBinary k b) = JBinary k b"

subsection \<open>The runtime\<close>

text \<open>
  \<^item> \<open>rt_toString n\<close> is \<^verbatim>\<open>n.toString()\<close> of a number (also \<^verbatim>\<open>`${n}`\<close>);
  \<^item> \<open>rt_Number s\<close> is \<^verbatim>\<open>Number(s)\<close> of a string;
  \<^item> \<open>rt_falsy n\<close> holds when the number \<open>n\<close> is falsy (zero or NaN);
  \<^item> \<open>rt_toISOString d\<close> is \<^verbatim>\<open>d.toISOString()\<close> of a (valid) date;
  \<^item> \<open>rt_getUnixTime d\<close> is \<^verbatim>\<open>getUnixTime(d)\<close> of the package date-fns;
  \<^item> \<open>rt_Buffer_from m\<close> is the content of \<^verbatim>\<open>Buffer.from(m)\<close>, \<open>None\<close> when the
    call raises a TypeError;
  \<^item> \<open>rt_binary_toString k b\<close> is the string a binary payload coerces to.
\<close>

record ('n, 'd) runtime =
  rt_toString :: "'n \<Rightarrow> string"
  rt_Number :: "string \<Rightarrow> 'n"
  rt_falsy :: "'n \<Rightarrow> bool"
  rt_toISOString :: "'d \<Rightarrow> string"
  rt_getUnixTime :: "'d \<Rightarrow> 'n"
  rt_Buffer_from :: "'n member \<Rightarrow> elements option"
  rt_binary_toString :: "binkind \<Rightarrow> elements \<Rightarrow> string"

subsection \<open>types.ts: the classifier\<close>

fun kind_name :: "binkind \<Rightarrow> string" where
  "kind_name Buffer = ''Buffer''"
| "kind_name File = ''File''"
| "kind_name Blob = ''Blob''"
| "kind_name ArrayBuffer = ''ArrayBuffer''"
| "kind_name DataView = ''DataView''"
| "kind_name Int8Array = ''Int8Array''"
| "kind_name Uint8Array = ''Uint8Array''"
| "kind_name Uint8ClampedArray = ''Uint8ClampedArray''"
| "kind_name Int16Array = ''Int16Array''"
| "kind_name Uint16Array = ''Uint16Array''"
| "kind_name Int32Array = ''Int32Array''"
| "kind_name Uint32Array = ''Uint32Array''"
| "kind_name Float32Array = ''Float32Array''"
| "kind_name Float64Array = ''Float64Array''"

text \<open>
  \<^verbatim>\<open>data.constructor\<close>, identified by the constructor's name; \<open>None\<close> where the source's
  test \<^verbatim>\<open>data.constructor\<close> is falsy. \<^verbatim>\<open>typeName\<close> returns the \<^verbatim>\<open>name\<close> of the
  constructor it is given.
\<close>

fun constructor :: "('n, 'd) jsval \<Rightarrow> string option" where
  "constructor JUndefined = None"
| "constructor JNull = None"
| "constructor (JBoolean b) = Some ''Boolean''"
| "constructor (JNumber n) = Some ''Number''"
| "constructor (JString s) = Some ''String''"
| "constructor (JDate d) = Some ''Date''"
| "constructor (JBinary k b) = Some (kind_name k)"
| "constructor (JArray xs) = Some ''Array''"
| "constructor (JObject ps) = Some ''Object''"
| "constructor (JInstance c ps) = Some c"
| "constructor JFunction = Some ''Function''"
| "constructor (JSet t vs) = Some ''DynamoDBSet''"
| "constructor (JNumberValue s) = Some ''NumberValue''"

definition typeName :: "string \<Rightarrow> string" where
  "typeName type = type"

text \<open>
  The tag in \<^verbatim>\<open>Object.prototype.toString.call(obj)\<close>; a \<^verbatim>\<open>Buffer\<close> is a
  \<^verbatim>\<open>Uint8Array\<close> there.
\<close>

fun toStringTag :: "('n, 'd) jsval \<Rightarrow> string" where
  "toStringTag JUndefined = ''Undefined''"
| "toStringTag JNull = ''Null''"
| "toStringTag (JBoolean b) = ''Boolean''"
| "toStringTag (JNumber n) = ''Number''"
| "toStringTag (JString s) = ''String''"
| "toStringTag (JDate d) = ''Date''"
| "toStringTag (JBinary k b) = (if k = Buffer then ''Uint8Array'' else kind_name k)"
| "toStringTag (JArray xs) = ''Array''"
| "toStringTag (JObject ps) = ''Object''"
| "toStringTag (JInstance c ps) = ''Object''"
| "toStringTag JFunction = ''Function''"
| "toStringTag (JSet t vs) = ''Object''"
| "toStringTag (JNumberValue s) = ''Object''"

definition isType :: "('n, 'd) jsval \<Rightarrow> string \<Rightarrow> bool" where
  "isType obj type \<longleftrightarrow> ''[object '' @ toStringTag obj @ '']'' = ''[object '' @ type @ '']''"

definition binary_types :: "string list" where
  "binary_types =
     [''Buffer'', ''File'', ''Blob'', ''ArrayBuffer'', ''DataView'', ''Int8Array'',
      ''Uint8Array'', ''Uint8ClampedArray'', ''Int16Array'', ''Uint16Array'',
      ''Int32Array'', ''Uint32Array'', ''Float32Array'', ''Float64Array'']"

fun isBuffer :: "('n, 'd) jsval \<Rightarrow> bool" where
  "isBuffer (JBinary k b) = (k = Buffer)"
| "isBuffer _ = False"

definition isBinary :: "('n, 'd) jsval \<Rightarrow> bool" where
  "isBinary data \<longleftrightarrow>
     (if isBuffer data then True
      else list_ex (\<lambda>type.
             data \<noteq> JUndefined \<and>
             (case constructor data of
                None \<Rightarrow> False
              | Some c \<Rightarrow> isType data type \<or> typeName c = type)) binary_types)"

text \<open>\<^verbatim>\<open>data.wrapperName\<close>: the class field of a set, absent elsewhere.\<close>

fun wrapperName :: "('n, 'd) jsval \<Rightarrow> string option" where
  "wrapperName (JSet t vs) = Some ''Set''"
| "wrapperName _ = None"

fun isDate :: "('n, 'd) jsval \<Rightarrow> bool" where
  "isDate (JDate d) = True"
| "isDate _ = False"

definition typeOf :: "('n, 'd) jsval \<Rightarrow> string" where
  "typeOf data =
     (if isDate data then ''Date''
      else if data = JNull then ''null''
      else if data \<noteq> JUndefined \<and> isBinary data then ''Binary''
      else if data \<noteq> JUndefined \<and> constructor data \<noteq> None then
        (case wrapperName data of
           Some w \<Rightarrow> w
         | None \<Rightarrow> (case constructor data of Some c \<Rightarrow> typeName c | None \<Rightarrow> ''undefined''))
      else ''undefined'')"

text \<open>
  The source has one more branch, for an object without a constructor (made by
  \<^verbatim>\<open>Object.create(null)\<close>), which it calls \<^verbatim>\<open>'Object'\<close>; \<open>JObject\<close> stands for such an
  object too, and \<open>constructor\<close> already answers \<^verbatim>\<open>Object\<close> for it.

  The names \<^verbatim>\<open>typeOf\<close> gives a meaning to; a user-defined class of the model bears
  none of them.
\<close>

definition reserved_names :: "string list" where
  "reserved_names =
     [''Date'', ''null'', ''Binary'', ''Object'', ''Array'', ''Set'', ''String'', ''Number'',
      ''NumberValue'', ''Boolean'', ''undefined'', ''Function'', ''DynamoDBSet'']
     @ binary_types"

definition custom_class :: "string \<Rightarrow> bool" where
  "custom_class c \<longleftrightarrow> c \<notin> set reserved_names"

subsection \<open>set.ts: the class DynamoDBSet\<close>

datatype error =
    Unconvertible string
  | InvalidSetComposition
  | TypeError

text \<open>
  \<open>Unconvertible t\<close> is the error ``Unable to convert property to a Dynamo DB attribute
  with type t'' of \<^verbatim>\<open>Converter.input\<close>; \<open>InvalidSetComposition\<close> is ``Sets can contain
  string, number, or binary values'' of \<^verbatim>\<open>detectType\<close>; \<open>TypeError\<close> is the runtime's,
  from \<^verbatim>\<open>Buffer.from\<close>.
\<close>

fun memberTypeToSetType :: "string \<Rightarrow> string option" where
  "memberTypeToSetType type =
     (if type = ''String'' then Some ''String''
      else if type = ''Number'' then Some ''Number''
      else if type = ''NumberValue'' then Some ''Number''
      else if type = ''Binary'' then Some ''Binary''
      else None)"

text \<open>
  The fields of the class: \<^verbatim>\<open>values: any[] = []\<close> and \<^verbatim>\<open>type?: string\<close>
  (\<^verbatim>\<open>wrapperName\<close> is the constant \<^verbatim>\<open>'Set'\<close>).
\<close>

record 'n dynamodb_set =
  set_values :: "'n member list"
  set_type :: "string option"

text \<open>\<^verbatim>\<open>this.values[0]\<close>: \<^verbatim>\<open>undefined\<close> on an empty array.\<close>

definition first_value :: "'n member list \<Rightarrow> ('n, 'd) jsval" where
  "first_value vs = (case vs of [] \<Rightarrow> JUndefined | v # _ \<Rightarrow> member_value v)"

definition detectType :: "'n dynamodb_set \<Rightarrow> error + 'n dynamodb_set" where
  "detectType this =
     (let this = this\<lparr>set_type :=
                   memberTypeToSetType (typeOf (first_value (set_values this) :: ('n, unit) jsval))\<rparr>
      in if set_type this = None then Inl InvalidSetComposition else Inr this)"

text \<open>
  \<^verbatim>\<open>initialize\<close> evaluates \<^verbatim>\<open>this.values.concat(...list)\<close> and drops the result:
  \<^verbatim>\<open>concat\<close> returns a new array and leaves \<^verbatim>\<open>this.values\<close> as it was.
\<close>

definition initialize :: "('n, 'd) jsval list \<Rightarrow> 'n dynamodb_set \<Rightarrow> error + 'n dynamodb_set" where
  "initialize list this =
     (let dropped = map member_value (set_values this) @ list
      in detectType this)"

definition new_DynamoDBSet :: "('n, 'd) jsval list \<Rightarrow> error + 'n dynamodb_set" where
  "new_DynamoDBSet list = initialize list \<lparr>set_values = [], set_type = None\<rparr>"

subsection \<open>attribute-value.ts and converter-options.ts\<close>

text \<open>
  An attribute value is a record with one of the keys \<^verbatim>\<open>S\<close>, \<^verbatim>\<open>N\<close>, \<^verbatim>\<open>B\<close>,
  \<^verbatim>\<open>SS\<close>, \<^verbatim>\<open>NS\<close>, \<^verbatim>\<open>BS\<close>, \<^verbatim>\<open>M\<close>, \<^verbatim>\<open>L\<close>, \<^verbatim>\<open>NULL\<close>, \<^verbatim>\<open>BOOL\<close>, or the
  key \<^verbatim>\<open>$unknown\<close>. \<open>NoKey\<close> is the record with no key at all, which the declared
  type excludes and \<^verbatim>\<open>formatSet\<close> can return.

  The payloads have their declared types, but for two: \<^verbatim>\<open>formatSet\<close> stores the values
  of a set under \<^verbatim>\<open>SS\<close> and \<^verbatim>\<open>BS\<close> as they are, so these hold set members; and
  \<^verbatim>\<open>Converter.output\<close> compares the payload of \<^verbatim>\<open>BOOL\<close> with the strings
  \<^verbatim>\<open>'true'\<close> and \<^verbatim>\<open>'TRUE'\<close>, so it is a boolean or a string.
\<close>

datatype bool_payload = PBoolean bool | PString string

datatype 'n attr =
    S string
  | N string
  | B binkind elements
  | SS "'n member list"
  | NS "string list"
  | BS "'n member list"
  | M "(string \<times> 'n attr) list"
  | L "'n attr list"
  | NULL bool
  | BOOL bool_payload
  | Unknown string
  | NoKey

datatype date_format = iso | unix

text \<open>An absent flag is \<open>False\<close>: the source only tests the flags for truth.\<close>

record converter_options =
  convertEmptyValues :: bool
  wrapNumbers :: bool
  dateFormat :: "date_format option"

text \<open>\<^verbatim>\<open>options || {}\<close>, for the optional parameter \<^verbatim>\<open>options\<close>.\<close>

definition or_empty :: "converter_options option \<Rightarrow> converter_options" where
  "or_empty options =
     (case options of
        None \<Rightarrow> \<lparr>convertEmptyValues = False, wrapNumbers = False, dateFormat = None\<rparr>
      | Some opts \<Rightarrow> opts)"

subsection \<open>converter.ts: marshalling\<close>

text \<open>The class \<^verbatim>\<open>NumberValue\<close>: \<^verbatim>\<open>toString\<close> returns the value it was built with.\<close>

definition NumberValue_toString :: "string \<Rightarrow> string" where
  "NumberValue_toString v = v"

definition NumberValue_toNumber :: "('n, 'd) runtime \<Rightarrow> string \<Rightarrow> 'n" where
  "NumberValue_toNumber rt v = rt_Number rt v"

text \<open>
  \<^verbatim>\<open>data.length\<close> of a binary value: a \<^verbatim>\<open>Buffer\<close> and the typed arrays have a
  \<^verbatim>\<open>length\<close>; \<^verbatim>\<open>File\<close>, \<^verbatim>\<open>Blob\<close>, \<^verbatim>\<open>ArrayBuffer\<close> and \<^verbatim>\<open>DataView\<close> have none
  (they have \<^verbatim>\<open>size\<close> or \<^verbatim>\<open>byteLength\<close>), and \<^verbatim>\<open>data.length\<close> is \<^verbatim>\<open>undefined\<close>.
\<close>

definition binary_length :: "binkind \<Rightarrow> elements \<Rightarrow> nat option" where
  "binary_length k b =
     (if k = File \<or> k = Blob \<or> k = ArrayBuffer \<or> k = DataView then None
      else Some (length b))"

fun member_length :: "'n member \<Rightarrow> nat option" where
  "member_length (MString s) = Some (length s)"
| "member_length (MNumber n) = None"
| "member_length (MNumberValue s) = None"
| "member_length (MBinary k b) = binary_length k b"

text \<open>\<^verbatim>\<open>value.toString()\<close> of a set member, and equally \<^verbatim>\<open>value + ''\<close>.\<close>

fun member_toString :: "('n, 'd) runtime \<Rightarrow> 'n member \<Rightarrow> string" where
  "member_toString rt (MString s) = s"
| "member_toString rt (MNumber n) = rt_toString rt n"
| "member_toString rt (MNumberValue s) = NumberValue_toString s"
| "member_toString rt (MBinary k b) = rt_binary_toString rt k b"

definition formatDate :: "('n, 'd) runtime \<Rightarrow> 'd \<Rightarrow> converter_options \<Rightarrow> 'n attr" where
  "formatDate rt data options =
     (if dateFormat options = Some unix then S (rt_toString rt (rt_getUnixTime rt data))
      else S (rt_toISOString rt data))"

text \<open>
  \<^verbatim>\<open>filterEmptySetValues\<close>; the table \<^verbatim>\<open>potentiallyEmptyTypes\<close> is true at
  \<^verbatim>\<open>String\<close> and \<^verbatim>\<open>Binary\<close>. (A declared type that names a property every object
  inherits, such as \<^verbatim>\<open>'toString'\<close>, is outside the model.)
\<close>

definition potentiallyEmptyTypes :: "string option \<Rightarrow> bool" where
  "potentiallyEmptyTypes type \<longleftrightarrow> type = Some ''String'' \<or> type = Some ''Binary''"

definition filterEmptySetValues :: "string option \<Rightarrow> 'n member list \<Rightarrow> 'n member list" where
  "filterEmptySetValues type vs =
     (if potentiallyEmptyTypes type then filter (\<lambda>v. member_length v \<noteq> Some 0) vs
      else vs)"

text \<open>The \<^verbatim>\<open>switch\<close> of \<^verbatim>\<open>formatSet\<close>: it has no default case.\<close>

definition formatSet_switch :: "('n, 'd) runtime \<Rightarrow> string option \<Rightarrow> 'n member list \<Rightarrow> 'n attr" where
  "formatSet_switch rt type vs =
     (if type = Some ''String'' then SS vs
      else if type = Some ''Binary'' then BS vs
      else if type = Some ''Number'' then NS (map (member_toString rt) vs)
      else NoKey)"

text \<open>\<^verbatim>\<open>map[key] = formatted\<close> on an object kept as a property list.\<close>

fun assign :: "string \<Rightarrow> 'a \<Rightarrow> (string \<times> 'a) list \<Rightarrow> (string \<times> 'a) list" where
  "assign key v [] = [(key, v)]"
| "assign key v ((k, w) # ps) = (if k = key then (k, v) # ps else (k, w) # assign key v ps)"

text \<open>
  \<^verbatim>\<open>Converter.input\<close>, one equation for each value the classifier tells apart, in the
  order of the source's tests; \<open>typeOf_cases\<close> below gives the type name of each.
  \<^verbatim>\<open>formatMap\<close> and \<^verbatim>\<open>formatList\<close> are the loops of the source, with the record under
  construction as an argument. \<^verbatim>\<open>formatMap\<close> stores a result when it is not
  \<^verbatim>\<open>undefined\<close>; \<^verbatim>\<open>Converter.input\<close> returns a record or raises, so the test always
  holds.
\<close>

function input :: "('n, 'd) runtime \<Rightarrow> converter_options option \<Rightarrow> ('n, 'd) jsval \<Rightarrow> error + 'n attr"
  and formatMap :: "('n, 'd) runtime \<Rightarrow> converter_options option \<Rightarrow> (string \<times> 'n attr) list
                     \<Rightarrow> (string \<times> ('n, 'd) jsval) list \<Rightarrow> error + 'n attr"
  and formatList :: "('n, 'd) runtime \<Rightarrow> converter_options option \<Rightarrow> 'n attr list
                     \<Rightarrow> ('n, 'd) jsval list \<Rightarrow> error + 'n attr"
  and formatSet :: "('n, 'd) runtime \<Rightarrow> converter_options option \<Rightarrow> string option
                     \<Rightarrow> 'n member list \<Rightarrow> error + 'n attr"
where
  "input rt options (JDate d) = Inr (formatDate rt d (or_empty options))"
| "input rt options (JObject ps) = formatMap rt options [] ps"
| "input rt options (JArray xs) = formatList rt options [] xs"
| "input rt options (JSet t vs) = formatSet rt options t vs"
| "input rt options (JString s) =
     (if length s = 0 \<and> convertEmptyValues (or_empty options) then input rt None JNull
      else Inr (S s))"
| "input rt options (JNumber n) = Inr (N (rt_toString rt n))"
| "input rt options (JNumberValue s) = Inr (N (NumberValue_toString s))"
| "input rt options (JBinary k b) =
     (if binary_length k b = Some 0 \<and> convertEmptyValues (or_empty options)
      then input rt None JNull
      else Inr (B k b))"
| "input rt options (JBoolean b) = Inr (BOOL (PBoolean b))"
| "input rt options JNull = Inr (NULL True)"
| "input rt options (JInstance c ps) =
     (if typeOf (JInstance c ps :: ('n, 'd) jsval) \<noteq> ''undefined'' \<and>
         typeOf (JInstance c ps :: ('n, 'd) jsval) \<noteq> ''Function''
      then formatMap rt options [] ps
      else Inl (Unconvertible (typeOf (JInstance c ps :: ('n, 'd) jsval))))"
| "input rt options JFunction = Inl (Unconvertible (typeOf (JFunction :: ('n, 'd) jsval)))"
| "input rt options JUndefined = Inl (Unconvertible (typeOf (JUndefined :: ('n, 'd) jsval)))"
| "formatMap rt options acc [] = Inr (M acc)"
| "formatMap rt options acc ((key, v) # ps) =
     (case input rt options v of
        Inl e \<Rightarrow> Inl e
      | Inr formatted \<Rightarrow> formatMap rt options (assign key formatted acc) ps)"
| "formatList rt options acc [] = Inr (L acc)"
| "formatList rt options acc (v # xs) =
     (case input rt options v of
        Inl e \<Rightarrow> Inl e
      | Inr formatted \<Rightarrow> formatList rt options (acc @ [formatted]) xs)"
| "formatSet rt options type vs =
     (let values = (if convertEmptyValues (or_empty options) then filterEmptySetValues type vs
                    else vs)
      in if convertEmptyValues (or_empty options) \<and> length values = 0 then input rt None JNull
         else Inr (formatSet_switch rt type values))"
  by pat_completeness auto

termination
  by (relation "measure (\<lambda>x. case x of
          Inl (Inl (rt, options, v)) \<Rightarrow> (if v = JNull then 0 else 2 * size v + 3)
        | Inl (Inr (rt, options, acc, ps)) \<Rightarrow> 2 * size (JObject ps) + 1
        | Inr (Inl (rt, options, acc, xs)) \<Rightarrow> 2 * size (JArray xs) + 1
        | Inr (Inr (rt, options, t, vs)) \<Rightarrow> 1)") auto



subsection \<open>converter.ts: unmarshalling\<close>

definition convertNumber :: "('n, 'd) runtime \<Rightarrow> string \<Rightarrow> bool \<Rightarrow> ('n, 'd) jsval" where
  "convertNumber rt v wrap = (if wrap then JNumberValue v else JNumber (rt_Number rt v))"

text \<open>
  \<^verbatim>\<open>toBuffer\<close>: a falsy value gives the empty buffer; a \<^verbatim>\<open>Buffer\<close> or a
  \<^verbatim>\<open>Uint8Array\<close> is returned as it is; of anything else \<^verbatim>\<open>Buffer.from\<close> builds a
  \<^verbatim>\<open>Buffer\<close>.
\<close>

fun member_falsy :: "('n, 'd) runtime \<Rightarrow> 'n member \<Rightarrow> bool" where
  "member_falsy rt (MString s) = (s = [])"
| "member_falsy rt (MNumber n) = rt_falsy rt n"
| "member_falsy rt (MNumberValue s) = False"
| "member_falsy rt (MBinary k b) = False"

fun instanceof_Buffer_or_Uint8Array :: "'n member \<Rightarrow> bool" where
  "instanceof_Buffer_or_Uint8Array (MBinary k b) = (k = Buffer \<or> k = Uint8Array)"
| "instanceof_Buffer_or_Uint8Array _ = False"

definition toBuffer :: "('n, 'd) runtime \<Rightarrow> 'n member \<Rightarrow> error + ('n, 'd) jsval" where
  "toBuffer rt v =
     (if member_falsy rt v then Inr (JBinary Buffer [])
      else if instanceof_Buffer_or_Uint8Array v then Inr (member_value v)
      else (case rt_Buffer_from rt v of
              None \<Rightarrow> Inl TypeError
            | Some b \<Rightarrow> Inr (JBinary Buffer b)))"

text \<open>The loop of the \<^verbatim>\<open>BS\<close> branch: \<^verbatim>\<open>list.push(toBuffer(listValues[i]))\<close>.\<close>

fun toBuffer_each :: "('n, 'd) runtime \<Rightarrow> ('n, 'd) jsval list \<Rightarrow> 'n member list
                        \<Rightarrow> error + ('n, 'd) jsval list" where
  "toBuffer_each rt list [] = Inr list"
| "toBuffer_each rt list (v # vs) =
     (case toBuffer rt v of
        Inl e \<Rightarrow> Inl e
      | Inr b \<Rightarrow> toBuffer_each rt (list @ [b]) vs)"

text \<open>The object \<^verbatim>\<open>new DynamoDBSet(list)\<close> evaluates to, as a native value.\<close>

definition set_object :: "error + 'n dynamodb_set \<Rightarrow> error + ('n, 'd) jsval" where
  "set_object r =
     (case r of Inl e \<Rightarrow> Inl e | Inr this \<Rightarrow> Inr (JSet (set_type this) (set_values this)))"

text \<open>\<^verbatim>\<open>`${data[key]}`\<close> of the payload of \<^verbatim>\<open>BOOL\<close>.\<close>

fun payload_string :: "bool_payload \<Rightarrow> string" where
  "payload_string (PBoolean b) = (if b then ''true'' else ''false'')"
| "payload_string (PString s) = s"

text \<open>
  \<^verbatim>\<open>Converter.output\<close>, in the order of the source's tests on the key;
  \<open>output_map\<close> and \<open>output_list\<close> are the loops of its \<^verbatim>\<open>M\<close> and \<^verbatim>\<open>L\<close>
  branches, with the object or array under construction as an argument. A record
  with no recognised key falls out of the loop over the keys, and the result is
  \<^verbatim>\<open>undefined\<close>.
\<close>

fun "output" :: "('n, 'd) runtime \<Rightarrow> converter_options option \<Rightarrow> 'n attr \<Rightarrow> error + ('n, 'd) jsval"
  and output_map :: "('n, 'd) runtime \<Rightarrow> converter_options option \<Rightarrow> (string \<times> ('n, 'd) jsval) list
                      \<Rightarrow> (string \<times> 'n attr) list \<Rightarrow> error + ('n, 'd) jsval"
  and output_list :: "('n, 'd) runtime \<Rightarrow> converter_options option \<Rightarrow> ('n, 'd) jsval list
                      \<Rightarrow> 'n attr list \<Rightarrow> error + ('n, 'd) jsval"
where
  "output rt options (M mapValues) = output_map rt options [] mapValues"
| "output rt options (L listValues) = output_list rt options [] listValues"
| "output rt options (SS listValues) =
     set_object (new_DynamoDBSet
       (map (\<lambda>v. JString (member_toString rt v) :: ('n, 'd) jsval) listValues))"
| "output rt options (NS listValues) =
     set_object (new_DynamoDBSet
       (map (\<lambda>v. convertNumber rt v (wrapNumbers (or_empty options)) :: ('n, 'd) jsval)
          listValues))"
| "output rt options (BS listValues) =
     (case toBuffer_each rt [] listValues of
        Inl e \<Rightarrow> Inl e
      | Inr list \<Rightarrow> set_object (new_DynamoDBSet list))"
| "output rt options (S s) = Inr (JString s)"
| "output rt options (N numberString) =
     (if numberString = [] then Inr JNull
      else Inr (convertNumber rt numberString (wrapNumbers (or_empty options))))"
| "output rt options (B k b) = toBuffer rt (MBinary k b)"
| "output rt options (BOOL p) =
     (let boolString = payload_string p
      in Inr (JBoolean (boolString = ''true'' \<or> boolString = ''TRUE'' \<or> p = PBoolean True)))"
| "output rt options (NULL b) = Inr JNull"
| "output rt options (Unknown name) = Inr JUndefined"
| "output rt options NoKey = Inr JUndefined"
| "output_map rt options acc [] = Inr (JObject acc)"
| "output_map rt options acc ((mapKey, a) # mapValues) =
     (case output rt options a of
        Inl e \<Rightarrow> Inl e
      | Inr v \<Rightarrow> output_map rt options (assign mapKey v acc) mapValues)"
| "output_list rt options acc [] = Inr (JArray acc)"
| "output_list rt options acc (a # listValues) =
     (case output rt options a of
        Inl e \<Rightarrow> Inl e
      | Inr v \<Rightarrow> output_list rt options (acc @ [v]) listValues)"


subsection \<open>An example runtime\<close>

text \<open>
  A small runtime on which examples are evaluated: its numbers are the integers,
  printed in decimal; a date is given by the text \<^verbatim>\<open>toISOString\<close> prints and its
  time in seconds; \<^verbatim>\<open>Buffer.from\<close> takes the characters of a string and the elements
  of a binary value, and raises on the rest.
\<close>

function digits :: "nat \<Rightarrow> string" where
  "digits n =
     (if n < 10 then [''0123456789'' ! n]
      else digits (n div 10) @ [''0123456789'' ! (n mod 10)])"
  by pat_completeness auto
termination
  by (relation "measure (\<lambda>n. n)") auto

definition int_toString :: "int \<Rightarrow> string" where
  "int_toString i = (if i < 0 then CHR ''-'' # digits (nat (- i)) else digits (nat i))"

definition nat_of_digits :: "string \<Rightarrow> nat" where
  "nat_of_digits s = foldl (\<lambda>a c. 10 * a + (of_char c - 48)) 0 s"

definition int_of_string :: "string \<Rightarrow> int" where
  "int_of_string s =
     (case s of
        [] \<Rightarrow> 0
      | c # cs \<Rightarrow> if c = CHR ''-'' then - int (nat_of_digits cs) else int (nat_of_digits s))"

fun example_Buffer_from :: "int member \<Rightarrow> elements option" where
  "example_Buffer_from (MString s) = Some (map of_char s)"
| "example_Buffer_from (MBinary k b) = (if k = File \<or> k = Blob then None else Some b)"
| "example_Buffer_from _ = None"

definition example_runtime :: "(int, string \<times> int) runtime" where
  "example_runtime =
     \<lparr>rt_toString = int_toString,
      rt_Number = int_of_string,
      rt_falsy = (\<lambda>n. n = 0),
      rt_toISOString = fst,
      rt_getUnixTime = snd,
      rt_Buffer_from = example_Buffer_from,
      rt_binary_toString = (\<lambda>k b. map char_of b)\<rparr>"

subsection \<open>Notions the properties are stated with\<close>












section \<open>Properties\<close>

subsection \<open>The classifier on each shape of value\<close>

lemma isBinary_JBinary: "isBinary (JBinary k b)"
  by (cases k) (simp_all add: isBinary_def binary_types_def isType_def typeName_def)

lemma typeOf_cases:
  "typeOf JUndefined = ''undefined''"
  "typeOf JNull = ''null''"
  "typeOf (JBoolean bv) = ''Boolean''"
  "typeOf (JNumber n) = ''Number''"
  "typeOf (JString s) = ''String''"
  "typeOf (JDate d) = ''Date''"
  "typeOf (JBinary k b) = ''Binary''"
  "typeOf (JArray xs) = ''Array''"
  "typeOf (JObject ps) = ''Object''"
  "typeOf JFunction = ''Function''"
  "typeOf (JSet t vs) = ''Set''"
  "typeOf (JNumberValue s) = ''NumberValue''"
  by (simp_all add: typeOf_def isBinary_JBinary)
     (simp_all add: isBinary_def binary_types_def isType_def typeName_def)

lemma typeOf_JInstance:
  "custom_class c \<Longrightarrow> typeOf (JInstance c ps) = c"
  by (simp add: typeOf_def isBinary_def binary_types_def isType_def typeName_def
      custom_class_def reserved_names_def)

subsection \<open>The constructor of DynamoDBSet\<close>

lemma detectType_empty:
  "detectType \<lparr>set_values = [], set_type = t\<rparr> = Inl InvalidSetComposition"
  by (simp add: detectType_def first_value_def typeOf_cases)

text \<open>
  C2. Constructing a \<^verbatim>\<open>DynamoDBSet\<close> should succeed on a list whose first element is
  a string, a number, a \<^verbatim>\<open>NumberValue\<close> or a binary value. The constructor raises
  ``Sets can contain string, number, or binary values'' on every list:
  \<^verbatim>\<open>initialize\<close> never stores the list, so \<^verbatim>\<open>detectType\<close> always reads
  \<^verbatim>\<open>undefined\<close> as the first value.
\<close>

theorem new_DynamoDBSet_always_raises:
  "new_DynamoDBSet list = Inl InvalidSetComposition"
  by (simp add: new_DynamoDBSet_def initialize_def detectType_empty)

subsection \<open>Unmarshalling sets\<close>

lemma toBuffer_each_Uint8Array:
  "toBuffer_each rt acc (map (MBinary Uint8Array) bs) = Inr (acc @ map (JBinary Uint8Array) bs)"
  by (induction bs arbitrary: acc) (simp_all add: toBuffer_def)

text \<open>
  C3. \<^verbatim>\<open>Converter.output\<close> should return a set for the keys \<^verbatim>\<open>SS\<close>, \<^verbatim>\<open>NS\<close> and
  \<^verbatim>\<open>BS\<close>. It builds the list of converted elements and passes it to
  \<^verbatim>\<open>new DynamoDBSet\<close>, which raises on every list: unmarshalling a string set, a
  number set or a set of \<^verbatim>\<open>Uint8Array\<close>s raises ``Sets can contain string,
  number, or binary values''.
\<close>

theorem output_sets_always_raise:
  "output rt options (SS vs) = Inl InvalidSetComposition \<and>
   output rt options (NS ns) = Inl InvalidSetComposition \<and>
   output rt options (BS (map (MBinary Uint8Array) bs)) = Inl InvalidSetComposition"
  by (simp add: new_DynamoDBSet_def initialize_def detectType_empty set_object_def
      toBuffer_each_Uint8Array)

subsection \<open>Booleans, empty values and numbers\<close>

text \<open>
  C7. \<^verbatim>\<open>Converter.output\<close> on a \<^verbatim>\<open>BOOL\<close> attribute returns \<^verbatim>\<open>true\<close> exactly when
  the payload is the boolean \<^verbatim>\<open>true\<close>, the string \<^verbatim>\<open>"true"\<close> or the string
  \<^verbatim>\<open>"TRUE"\<close>; every other boolean or string payload gives \<^verbatim>\<open>false\<close>.
\<close>

theorem output_BOOL:
  "output rt options (BOOL p) =
     Inr (JBoolean (p = PBoolean True \<or> p = PString ''true'' \<or> p = PString ''TRUE''))"
  by (cases p) auto

theorem output_BOOL_witness:
  "output example_runtime None (BOOL (PString ''TRUE'')) = Inr (JBoolean True) \<and>
   output example_runtime None (BOOL (PString ''True'')) = Inr (JBoolean False)"
  using output_BOOL [of example_runtime None "PString ''TRUE''"]
        output_BOOL [of example_runtime None "PString ''True''"]
  by simp

text \<open>
  Empty values. With \<^verbatim>\<open>convertEmptyValues\<close> set, the empty string marshals to
  \<^verbatim>\<open>{NULL: true}\<close>, as \<^verbatim>\<open>null\<close> does; without the flag it marshals to
  \<^verbatim>\<open>{S: ""}\<close>. With the flag set, a binary value whose \<^verbatim>\<open>length\<close> is 0 (an empty
  \<^verbatim>\<open>Buffer\<close> or typed array) marshals to \<^verbatim>\<open>{NULL: true}\<close>; any other binary value
  marshals to \<^verbatim>\<open>{B: value}\<close>.
\<close>

lemma input_empty_values:
  "(convertEmptyValues (or_empty options) \<longrightarrow>
      input rt options (JString []) = Inr (NULL True) \<and>
      input rt options (JString []) = input rt None JNull) \<and>
   (\<not> convertEmptyValues (or_empty options) \<longrightarrow> input rt options (JString []) = Inr (S [])) \<and>
   (convertEmptyValues (or_empty options) \<longrightarrow> binary_length k b = Some 0 \<longrightarrow>
      input rt options (JBinary k b) = Inr (NULL True)) \<and>
   (binary_length k b \<noteq> Some 0 \<longrightarrow> input rt options (JBinary k b) = Inr (B k b))"
  by simp

lemma input_empty_values_examples:
  "input example_runtime (Some \<lparr>convertEmptyValues = True, wrapNumbers = False, dateFormat = None\<rparr>)
      (JString []) = Inr (NULL True) \<and>
   input example_runtime None (JString []) = Inr (S []) \<and>
   input example_runtime (Some \<lparr>convertEmptyValues = True, wrapNumbers = False, dateFormat = None\<rparr>)
      (JBinary Buffer []) = Inr (NULL True) \<and>
   input example_runtime (Some \<lparr>convertEmptyValues = True, wrapNumbers = False, dateFormat = None\<rparr>)
      (JBinary DataView []) = Inr (B DataView [])"
  using input_empty_values [of
          "Some \<lparr>convertEmptyValues = True, wrapNumbers = False, dateFormat = None\<rparr>"
          example_runtime Buffer "[]"]
        input_empty_values [of None example_runtime Buffer "[]"]
        input_empty_values [of
          "Some \<lparr>convertEmptyValues = True, wrapNumbers = False, dateFormat = None\<rparr>"
          example_runtime DataView "[]"]
  by (simp add: or_empty_def binary_length_def)

text \<open>
  C8. A binary value of no bytes should marshal to \<^verbatim>\<open>{NULL: true}\<close> when
  \<^verbatim>\<open>convertEmptyValues\<close> is set (the option is documented to convert empty strings,
  blobs and sets). The source tests \<^verbatim>\<open>data.length === 0\<close>: an \<^verbatim>\<open>ArrayBuffer\<close> of
  no bytes is classified \<^verbatim>\<open>Binary\<close>, has no \<^verbatim>\<open>length\<close>, and marshals to
  \<^verbatim>\<open>{B: value}\<close>.
\<close>

theorem empty_ArrayBuffer_not_converted:
  "typeOf (JBinary ArrayBuffer [] :: (int, string \<times> int) jsval) = ''Binary'' \<and>
   input example_runtime
      (Some \<lparr>convertEmptyValues = True, wrapNumbers = False, dateFormat = None\<rparr>)
      (JBinary ArrayBuffer []) = Inr (B ArrayBuffer []) \<and>
   input example_runtime
      (Some \<lparr>convertEmptyValues = True, wrapNumbers = False, dateFormat = None\<rparr>)
      (JBinary ArrayBuffer []) \<noteq> Inr (NULL True)"
  by (simp add: or_empty_def binary_length_def typeOf_cases)

text \<open>
  C9. Marshalling a number gives \<^verbatim>\<open>{N: s}\<close> where \<open>s\<close> is the string the number prints
  to; and for every non-empty string \<open>s\<close>, unmarshalling \<^verbatim>\<open>{N: s}\<close> with
  \<^verbatim>\<open>wrapNumbers\<close> set gives a \<^verbatim>\<open>NumberValue\<close> whose string form is \<open>s\<close>, which
  marshals back to \<^verbatim>\<open>{N: s}\<close>.
\<close>

theorem input_number:
  "input rt options (JNumber n) = Inr (N (rt_toString rt n)) \<and>
   (s \<noteq> [] \<longrightarrow> wrapNumbers (or_empty options') \<longrightarrow>
      output rt options' (N s) = Inr (JNumberValue s) \<and>
      NumberValue_toString s = s \<and>
      input rt options (JNumberValue s) = Inr (N s))"
  by (simp add: convertNumber_def NumberValue_toString_def)

theorem input_number_witness:
  "input example_runtime None (JNumber 575) = Inr (N ''575'') \<and>
   output example_runtime
      (Some \<lparr>convertEmptyValues = False, wrapNumbers = True, dateFormat = None\<rparr>)
      (N ''123.45'') = Inr (JNumberValue ''123.45'') \<and>
   input example_runtime None (JNumberValue ''123.45'') = Inr (N ''123.45'')"
  using input_number [of example_runtime None 575 "''123.45''"
          "Some \<lparr>convertEmptyValues = False, wrapNumbers = True, dateFormat = None\<rparr>"]
  by (simp add: example_runtime_def int_toString_def or_empty_def)

subsection \<open>The options unmarshalling reads\<close>

lemma output_wrapNumbers_only:
  fixes o2 :: "converter_options option"
  shows "wrapNumbers (or_empty o1) = wrapNumbers (or_empty o2) \<Longrightarrow>
           output rt o1 a = output rt o2 a"
    and "wrapNumbers (or_empty o1) = wrapNumbers (or_empty o2) \<Longrightarrow>
           output_map rt o1 acc m = output_map rt o2 acc m"
    and "wrapNumbers (or_empty o1) = wrapNumbers (or_empty o2) \<Longrightarrow>
           output_list rt o1 acc' l = output_list rt o2 acc' l"
  by (induction rt o1 a and rt o1 acc m and rt o1 acc' l
      rule: output_output_map_output_list.induct)
     (auto split: sum.splits)

text \<open>
  C10. Unmarshalling reads no option but \<^verbatim>\<open>wrapNumbers\<close>: two option records that
  agree on it (given or left out, and whatever their \<^verbatim>\<open>convertEmptyValues\<close> and
  \<^verbatim>\<open>dateFormat\<close>) give the same result on every attribute value.
\<close>

theorem output_reads_wrapNumbers_only:
  "wrapNumbers (or_empty o1) = wrapNumbers (or_empty o2) \<Longrightarrow> output rt o1 a = output rt o2 a"
  by (rule output_wrapNumbers_only(1))

theorem output_reads_wrapNumbers_only_witness:
  "wrapNumbers (or_empty
      (Some \<lparr>convertEmptyValues = True, wrapNumbers = False, dateFormat = Some unix\<rparr>))
     = wrapNumbers (or_empty None) \<and>
   output example_runtime
      (Some \<lparr>convertEmptyValues = True, wrapNumbers = False, dateFormat = Some unix\<rparr>)
      (M [(''id'', N ''575''), (''tags'', L [S ''a'', BOOL (PBoolean True)])])
   = output example_runtime None
      (M [(''id'', N ''575''), (''tags'', L [S ''a'', BOOL (PBoolean True)])])"
  using output_reads_wrapNumbers_only [of
      "Some \<lparr>convertEmptyValues = True, wrapNumbers = False, dateFormat = Some unix\<rparr>" None
      example_runtime "M [(''id'', N ''575''), (''tags'', L [S ''a'', BOOL (PBoolean True)])]"]
  by (simp add: or_empty_def)

subsection \<open>Values that cannot be converted\<close>







subsection \<open>One key in every attribute value\<close>







subsection \<open>Marshalling an object\<close>







subsection \<open>The round trip\<close>











end
